theory Spec2Isabelle
  imports Main
begin

section \<open>Strings\<close>

text \<open>
  A JavaScript string is modelled as the list of its code units, restricted to the
  range U+0000..U+00FF (one \<^typ>\<open>char\<close> each). In that range the characters that
  \<^verbatim>\<open>String.prototype.trim\<close> strips and that the regular-expression class
  \<^verbatim>\<open>\s\<close> matches are TAB, LF, VT, FF, CR, SPACE and NO-BREAK SPACE.
\<close>

definition isWhiteSpace :: "char \<Rightarrow> bool" where
  "isWhiteSpace c = (of_char c \<in> {9, 10, 11, 12, 13, 32, 160 :: nat})"

text \<open>The classes \<^verbatim>\<open>a-z\<close>, \<^verbatim>\<open>A-Z\<close> and \<^verbatim>\<open>0-9\<close> of the regular expression.\<close>

definition isAlnum :: "char \<Rightarrow> bool" where
  "isAlnum c =
     (let n = (of_char c :: nat)
      in (97 \<le> n \<and> n \<le> 122) \<or> (65 \<le> n \<and> n \<le> 90) \<or> (48 \<le> n \<and> n \<le> 57))"

definition trim :: "string \<Rightarrow> string" where
  "trim s = rev (dropWhile isWhiteSpace (rev (dropWhile isWhiteSpace s)))"

text \<open>
  App.jsx, line 57: \<^verbatim>\<open>chatName.trim().replace(/[^a-zA-Z0-9\s\-_]/g, '')\<close>.
  The negated class deletes every character that is not a letter, a digit, a
  white-space character, a hyphen or an underscore.
\<close>

definition keptByRegex :: "char \<Rightarrow> bool" where
  "keptByRegex c = (isAlnum c \<or> isWhiteSpace c \<or> c = CHR ''-'' \<or> c = CHR ''_'')"

definition sanitizedName :: "string \<Rightarrow> string" where
  "sanitizedName chatName = filter keptByRegex (trim chatName)"

text \<open>Decimal rendering of a number inside a template literal.\<close>

fun decimal :: "nat \<Rightarrow> string" where
  "decimal n =
     (if n < 10 then [char_of (48 + n)]
      else decimal (n div 10) @ [char_of (48 + n mod 10)])"

declare decimal.simps [simp del]

text \<open>
  \<^verbatim>\<open>x || y\<close> for a string \<open>x\<close> that may be undefined: the empty string is falsy,
  as undefined is.
\<close>

definition orElse :: "string option \<Rightarrow> string \<Rightarrow> string" where
  "orElse x y = (case x of None \<Rightarrow> y | Some d \<Rightarrow> if d = [] then y else d)"


section \<open>Data model\<close>

text \<open>A source citation \<^verbatim>\<open>{source, content}\<close> as a pair.\<close>

type_synonym citation = "string \<times> string"

text \<open>
  A message object. The fields \<^verbatim>\<open>sources\<close> and \<^verbatim>\<open>isError\<close> are optional:
  the user message has neither, the assistant message has \<^verbatim>\<open>sources\<close>, the error
  message has \<^verbatim>\<open>isError\<close>.
\<close>

record message =
  text_msg :: string
  isUser :: bool
  timestamp :: string
  sources :: "citation list option"
  isError :: "bool option"

record conversation =
  id_conv :: string
  title :: string
  name :: string
  hasDocuments :: bool
  messages :: "message list"

text \<open>The two state variables of the \<^verbatim>\<open>App\<close> component.\<close>

record app_state =
  conversations :: "conversation list"
  activeConversationId :: string

datatype js_error = TypeError

text \<open>
  What a handler did besides updating state: it showed an \<^verbatim>\<open>alert\<close> and returned,
  or it threw.
\<close>

datatype notice = Alerted string | Thrown js_error

text \<open>
  A rejected axios promise: \<^verbatim>\<open>err.message\<close>, and \<^verbatim>\<open>err.response?.data?.detail\<close>
  (\<open>None\<close> when the response, its body or the field is missing).
\<close>

record axios_error =
  err_message :: string
  err_detail :: "string option"


section \<open>Conversation manager (App.jsx)\<close>

text \<open>App.jsx, line 45: \<^verbatim>\<open>conversations.find(c => c.id === activeConversationId)\<close>.\<close>

definition activeConversation :: "app_state \<Rightarrow> conversation option" where
  "activeConversation s = find (\<lambda>c. id_conv c = activeConversationId s) (conversations s)"

text \<open>
  The identifier of line 65,
  \<^verbatim>\<open>`chat-${Date.now()}-${Math.random().toString(36).substr(2, 9)}`\<close>: \<open>now\<close> is the
  clock reading and \<open>rnd\<close> the random suffix, both supplied by the environment.
\<close>

definition newConvId :: "nat \<Rightarrow> string \<Rightarrow> string" where
  "newConvId now rnd = ''chat-'' @ decimal now @ ''-'' @ rnd"

text \<open>
  \<^verbatim>\<open>createConversation\<close>, lines 47-73. \<open>prompted\<close> is what \<^verbatim>\<open>prompt\<close> returned
  (\<open>None\<close> when the dialog was cancelled). The handler runs synchronously, so the
  state it closes over is the current state.
\<close>

definition createConversation ::
    "string option \<Rightarrow> nat \<Rightarrow> string \<Rightarrow> app_state \<Rightarrow> notice option \<times> app_state" where
  "createConversation prompted now rnd s =
     (case prompted of
        None \<Rightarrow> (Some (Alerted ''Chat name is required!''), s)
      | Some chatName \<Rightarrow>
          if chatName = [] \<or> trim chatName = []
          then (Some (Alerted ''Chat name is required!''), s)
          else if sanitizedName chatName = []
          then (Some (Alerted
            ''Invalid chat name. Please use letters, numbers, spaces, hyphens, or underscores.''), s)
          else
            let newConv = \<lparr> id_conv = newConvId now rnd,
                            title = sanitizedName chatName,
                            name = sanitizedName chatName,
                            hasDocuments = False,
                            messages = [] \<rparr>
            in (None, \<lparr> conversations = conversations s @ [newConv],
                        activeConversationId = id_conv newConv \<rparr>))"

text \<open>
  \<^verbatim>\<open>deleteConversation\<close>, lines 75-85. \<^verbatim>\<open>filtered[0].id\<close> throws a TypeError when
  \<open>filtered\<close> is empty; \<^verbatim>\<open>setConversations(filtered)\<close> has been called by then.
\<close>

definition deleteConversation :: "string \<Rightarrow> app_state \<Rightarrow> notice option \<times> app_state" where
  "deleteConversation i s =
     (if length (conversations s) = 1
      then (Some (Alerted ''Cannot delete the last conversation''), s)
      else
        let filtered = filter (\<lambda>c. id_conv c \<noteq> i) (conversations s)
        in if activeConversationId s = i
           then (case filtered of
                   [] \<Rightarrow> (Some (Thrown TypeError), s\<lparr> conversations := filtered \<rparr>)
                 | c # _ \<Rightarrow> (None, \<lparr> conversations = filtered,
                                       activeConversationId = id_conv c \<rparr>))
           else (None, s\<lparr> conversations := filtered \<rparr>))"

text \<open>Line 142: clicking a conversation in the side bar.\<close>

definition setActiveConversationId :: "string \<Rightarrow> app_state \<Rightarrow> app_state" where
  "setActiveConversationId i s = s\<lparr> activeConversationId := i \<rparr>"

text \<open>
  \<^verbatim>\<open>addMessageToConversation\<close>, lines 95-101. It passes an updater function to
  \<^verbatim>\<open>setConversations\<close>, so it maps over the collection current when the update is
  applied.
\<close>

definition addMessageToConversation :: "string \<Rightarrow> message \<Rightarrow> app_state \<Rightarrow> app_state" where
  "addMessageToConversation chatId m s =
     s\<lparr> conversations :=
          map (\<lambda>c. if id_conv c = chatId then c\<lparr> messages := messages c @ [m] \<rparr> else c)
            (conversations s) \<rparr>"

text \<open>
  \<^verbatim>\<open>handleUploadSuccess\<close>, lines 87-93. The handler maps over the variables
  \<^verbatim>\<open>conversations\<close> and \<^verbatim>\<open>activeConversationId\<close> of the render that created it and
  passes the resulting array (not an updater) to \<^verbatim>\<open>setConversations\<close>. \<open>r\<close> is the
  state of that render, \<open>s\<close> the state when the handler is called; the response data
  is not used.
\<close>

definition handleUploadSuccess :: "app_state \<Rightarrow> app_state \<Rightarrow> app_state" where
  "handleUploadSuccess r s =
     s\<lparr> conversations :=
          map (\<lambda>c. if id_conv c = activeConversationId r then c\<lparr> hasDocuments := True \<rparr> else c)
            (conversations r) \<rparr>"

text \<open>
  \<^verbatim>\<open>handleResetSystem\<close>, lines 103-122. \<open>confirmed\<close> is the answer to
  \<^verbatim>\<open>window.confirm\<close>; \<open>posted\<close> is how the awaited request settled. As above, \<open>r\<close>
  is the state of the render whose handler was clicked and \<open>s\<close> the state when the
  request settles.
\<close>

definition resetRequest :: "bool \<Rightarrow> app_state \<Rightarrow> string option" where
  "resetRequest confirmed r = (if confirmed then Some (activeConversationId r) else None)"

definition handleResetSystem ::
    "bool \<Rightarrow> axios_error + unit \<Rightarrow> app_state \<Rightarrow> app_state \<Rightarrow> notice option \<times> app_state" where
  "handleResetSystem confirmed posted r s =
     (if \<not> confirmed then (None, s)
      else case posted of
        Inr _ \<Rightarrow>
          (None,
           s\<lparr> conversations :=
                map (\<lambda>c. if id_conv c = activeConversationId r
                         then c\<lparr> hasDocuments := False, messages := [] \<rparr> else c)
                  (conversations r) \<rparr>)
      | Inl err \<Rightarrow>
          (Some (Alerted (''Failed to reset: '' @ orElse (err_detail err) (err_message err))), s))"


section \<open>Persistent store (App.jsx, lines 12-43)\<close>

text \<open>
  The two keys of \<^verbatim>\<open>localStorage\<close>; \<open>None\<close> is what \<^verbatim>\<open>getItem\<close> returns for a
  key that was never written.
\<close>

record localStorage =
  rag_conversations :: "string option"
  rag_active_chat :: "string option"

text \<open>
  The values \<^verbatim>\<open>JSON.parse\<close> can return, as far as the model follows them: the
  scalars, and an array of conversation objects. \<^verbatim>\<open>JSON.parse\<close> and
  \<^verbatim>\<open>JSON.stringify\<close> belong to the platform and are parameters of the
  definitions below; a parser returns \<open>None\<close> where \<^verbatim>\<open>JSON.parse\<close> throws.
\<close>

datatype js_value = JNull | JBool bool | JNum int | JStr string | Collection "conversation list"

definition defaultConversation :: "nat \<Rightarrow> conversation" where
  "defaultConversation now =
     \<lparr> id_conv = ''chat_'' @ decimal now,
       title = ''New Chat'',
       name = ''default'',
       hasDocuments = False,
       messages = [] \<rparr>"

text \<open>The initialiser of \<^verbatim>\<open>conversations\<close>, lines 12-28. An empty string is falsy.\<close>

definition loadConversations ::
    "(string \<Rightarrow> js_value option) \<Rightarrow> nat \<Rightarrow> string option \<Rightarrow> js_value" where
  "loadConversations JSON_parse now saved =
     (case saved of
        None \<Rightarrow> Collection [defaultConversation now]
      | Some t \<Rightarrow>
          if t = [] then Collection [defaultConversation now]
          else (case JSON_parse t of
                  Some v \<Rightarrow> v
                | None \<Rightarrow> Collection [defaultConversation now]))"

text \<open>
  The initialiser of \<^verbatim>\<open>activeConversationId\<close>, lines 30-33:
  \<^verbatim>\<open>saved || conversations[0].id\<close>, which throws on an empty array.
\<close>

definition loadActiveConversationId :: "string option \<Rightarrow> conversation list \<Rightarrow> js_error + string" where
  "loadActiveConversationId saved cs =
     (let first = (case cs of [] \<Rightarrow> Inl TypeError | c # _ \<Rightarrow> Inr (id_conv c))
      in case saved of
           None \<Rightarrow> first
         | Some a \<Rightarrow> if a = [] then first else Inr a)"

text \<open>
  The first render of \<^verbatim>\<open>App\<close>. When the parsed value is not an array, the render
  throws a TypeError: at line 32 (\<^verbatim>\<open>conversations[0].id\<close>) or, failing that, at
  line 45 (\<^verbatim>\<open>conversations.find\<close> is not a function).
\<close>

definition startup ::
    "(string \<Rightarrow> js_value option) \<Rightarrow> nat \<Rightarrow> localStorage \<Rightarrow> js_error + app_state" where
  "startup JSON_parse now st =
     (case loadConversations JSON_parse now (rag_conversations st) of
        Collection cs \<Rightarrow>
          (case loadActiveConversationId (rag_active_chat st) cs of
             Inl e \<Rightarrow> Inl e
           | Inr a \<Rightarrow> Inr \<lparr> conversations = cs, activeConversationId = a \<rparr>)
      | _ \<Rightarrow> Inl TypeError)"

text \<open>The two saving effects, lines 36-43; they run after a render that changed the state.\<close>

definition saveEffects :: "(js_value \<Rightarrow> string) \<Rightarrow> app_state \<Rightarrow> localStorage" where
  "saveEffects JSON_stringify s =
     \<lparr> rag_conversations = Some (JSON_stringify (Collection (conversations s))),
       rag_active_chat = Some (activeConversationId s) \<rparr>"


section \<open>File uploader (Fileuploader.jsx)\<close>

text \<open>
  \<^verbatim>\<open>App\<close> renders \<^verbatim>\<open>ChatWindow\<close> with \<^verbatim>\<open>chatId={activeConversationId}\<close>,
  \<^verbatim>\<open>chatName={activeConversation?.name}\<close>,
  \<^verbatim>\<open>hasDocuments={activeConversation?.hasDocuments || false}\<close> and
  \<^verbatim>\<open>messages={activeConversation?.messages || []}\<close> (lines 194-203), and
  \<^verbatim>\<open>ChatWindow\<close> hands \<^verbatim>\<open>chatId\<close>, \<^verbatim>\<open>chatName\<close> and \<^verbatim>\<open>onUploadSuccess\<close> on to
  \<^verbatim>\<open>FileUploader\<close>. The props of a render are functions of the state \<open>r\<close> of that
  render.
\<close>

definition chatId_prop :: "app_state \<Rightarrow> string" where
  "chatId_prop r = activeConversationId r"

definition chatName_prop :: "app_state \<Rightarrow> string option" where
  "chatName_prop r = map_option name (activeConversation r)"

definition hasDocuments_prop :: "app_state \<Rightarrow> bool" where
  "hasDocuments_prop r = (case activeConversation r of None \<Rightarrow> False | Some c \<Rightarrow> hasDocuments c)"

definition messages_prop :: "app_state \<Rightarrow> message list" where
  "messages_prop r = (case activeConversation r of None \<Rightarrow> [] | Some c \<Rightarrow> messages c)"

text \<open>The multipart form of lines 31-36; \<^verbatim>\<open>chat_name\<close> is left out when falsy.\<close>

record upload_request =
  file_up :: string
  chat_id_up :: string
  chat_name_up :: "string option"

text \<open>The body of a successful upload response, \<^verbatim>\<open>{message, chunks}\<close>.\<close>

record upload_response =
  message_up :: string
  chunks :: nat

definition uploadRequest :: "string option \<Rightarrow> app_state \<Rightarrow> string + upload_request" where
  "uploadRequest fileToUpload r =
     (case fileToUpload of
        None \<Rightarrow> Inl ''Please select a file first''
      | Some f \<Rightarrow>
          Inr \<lparr> file_up = f,
                chat_id_up = chatId_prop r,
                chat_name_up =
                  (case chatName_prop r of
                     None \<Rightarrow> None
                   | Some n \<Rightarrow> if n = [] then None else Some n) \<rparr>)"

text \<open>
  \<^verbatim>\<open>uploadFile\<close>, lines 25-69, as far as the conversation state is concerned:
  \<open>posted\<close> is how the awaited request settled, \<open>r\<close> the state of the render in
  which the upload was started (whose \<^verbatim>\<open>onUploadSuccess\<close> the running function holds)
  and \<open>s\<close> the state when the request settles. The first component is the text given
  to \<^verbatim>\<open>setError\<close>, if any. The component's own display state (\<^verbatim>\<open>file\<close>,
  \<^verbatim>\<open>uploading\<close>, \<^verbatim>\<open>message\<close>) is not part of the model.
\<close>

definition uploadFile ::
    "string option \<Rightarrow> axios_error + upload_response \<Rightarrow> app_state \<Rightarrow> app_state
      \<Rightarrow> string option \<times> app_state" where
  "uploadFile fileToUpload posted r s =
     (case fileToUpload of
        None \<Rightarrow> (Some ''Please select a file first'', s)
      | Some f \<Rightarrow>
          (case posted of
             Inr data \<Rightarrow> (None, handleUploadSuccess r s)
           | Inl err \<Rightarrow>
               (Some (orElse (err_detail err) ''Error uploading file. Please try again.''), s)))"


section \<open>Chat window (Chatwindow.jsx)\<close>

text \<open>The three state variables of the \<^verbatim>\<open>ChatWindow\<close> component.\<close>

record chat_window =
  input :: string
  messages_win :: "message list"
  isLoading :: bool

text \<open>The JSON body of the query request, lines 153-157, and of its answer.\<close>

record query_request =
  question :: string
  chat_id :: string
  chat_name :: "string option"

record query_response =
  answer :: string
  sources_resp :: "citation list option"

text \<open>
  \<^verbatim>\<open>handleSend\<close> up to the \<^verbatim>\<open>await\<close>, lines 136-153. \<open>ts\<close> is the time stamp
  \<^verbatim>\<open>new Date().toISOString()\<close>. The result is the request handed to
  \<^verbatim>\<open>axios.post\<close>, if any, with the states of \<^verbatim>\<open>App\<close> and of the window after the
  updates queued before the request.
\<close>

definition handleSend ::
    "string \<Rightarrow> app_state \<Rightarrow> chat_window \<Rightarrow> query_request option \<times> app_state \<times> chat_window" where
  "handleSend ts s w =
     (if trim (input w) = [] \<or> \<not> hasDocuments_prop s \<or> isLoading w then (None, s, w)
      else
        let userMessage = \<lparr> text_msg = trim (input w),
                              isUser = True,
                              timestamp = ts,
                              sources = None,
                              isError = None \<rparr>
        in (Some \<lparr> question = text_msg userMessage,
                    chat_id = chatId_prop s,
                    chat_name = chatName_prop s \<rparr>,
            addMessageToConversation (chatId_prop s) userMessage s,
            w\<lparr> messages_win := messages_win w @ [userMessage],
               input := [],
               isLoading := True \<rparr>))"

text \<open>
  \<^verbatim>\<open>handleSend\<close> after the \<^verbatim>\<open>await\<close>, lines 159-184: the \<^verbatim>\<open>try\<close> branch for a
  fulfilled request, the \<^verbatim>\<open>catch\<close> branch for a rejected one, then \<^verbatim>\<open>finally\<close>.
  \<open>req\<close> is the request sent: the running function still holds the \<^verbatim>\<open>chatId\<close>
  it sent. The first component is the exception that leaves the handler, if any.
\<close>

definition handleSendSettled ::
    "query_request \<Rightarrow> axios_error + query_response \<Rightarrow> string \<Rightarrow> app_state \<Rightarrow> chat_window
      \<Rightarrow> js_error option \<times> app_state \<times> chat_window" where
  "handleSendSettled req posted ts s w =
     (case posted of
        Inr data \<Rightarrow>
          let botMessage = \<lparr> text_msg = answer data,
                               isUser = False,
                               timestamp = ts,
                               sources = Some (case sources_resp data of None \<Rightarrow> [] | Some l \<Rightarrow> l),
                               isError = None \<rparr>
          in (None,
              addMessageToConversation (chat_id req) botMessage s,
              w\<lparr> messages_win := messages_win w @ [botMessage], isLoading := False \<rparr>)
      | Inl err \<Rightarrow>
          let errorMessage = \<lparr> text_msg = orElse (err_detail err)
                                   ''Sorry, I encountered an error. Please try again.'',
                                 isUser = False,
                                 timestamp = ts,
                                 sources = None,
                                 isError = Some True \<rparr>
          in (None,
              addMessageToConversation (chat_id req) errorMessage s,
              w\<lparr> messages_win := messages_win w @ [errorMessage], isLoading := False \<rparr>))"

text \<open>\<^verbatim>\<open>handleClearChat\<close>, lines 194-198.\<close>

definition handleClearChat :: "bool \<Rightarrow> chat_window \<Rightarrow> chat_window" where
  "handleClearChat confirmed w = (if confirmed then w\<lparr> messages_win := [] \<rparr> else w)"

text \<open>The effect of lines 122-126, run when \<^verbatim>\<open>chatId\<close> or \<^verbatim>\<open>initialMessages\<close> changed.\<close>

definition loadMessages :: "app_state \<Rightarrow> chat_window \<Rightarrow> chat_window" where
  "loadMessages r w = w\<lparr> messages_win := messages_prop r, input := [] \<rparr>"


section \<open>The running application\<close>

text \<open>
  The page as a whole: the state of \<^verbatim>\<open>App\<close>, the state of the chat window, the
  local storage, and the query requests that were sent and have not settled yet (a
  history variable: the code keeps no such list).
\<close>

record system =
  app :: app_state
  win :: chat_window
  store :: localStorage
  inflight :: "query_request list"

text \<open>
  The events of the page. An upload or a reset that succeeds carries the state of
  the render in which it was started.
\<close>

datatype event =
    Typing string
  | Send string
  | Settled "axios_error + query_response" string
  | Select string
  | Create "string option" nat string
  | Delete string
  | UploadSucceeded app_state
  | ResetSucceeded app_state
  | ClearChat bool
  | LoadMessages

text \<open>A render that follows a change of the state of \<^verbatim>\<open>App\<close> runs the saving effects.\<close>

definition rendered :: "(js_value \<Rightarrow> string) \<Rightarrow> system \<Rightarrow> system" where
  "rendered JSON_stringify sys = sys\<lparr> store := saveEffects JSON_stringify (app sys) \<rparr>"

fun step :: "(js_value \<Rightarrow> string) \<Rightarrow> event \<Rightarrow> system \<Rightarrow> system" where
  "step f (Typing t) sys = sys\<lparr> win := (win sys)\<lparr> input := t \<rparr> \<rparr>"
| "step f (Send ts) sys =
     (case handleSend ts (app sys) (win sys) of
        (None, _, _) \<Rightarrow> sys
      | (Some req, a, w) \<Rightarrow>
          rendered f (sys\<lparr> app := a, win := w, inflight := inflight sys @ [req] \<rparr>))"
| "step f (Settled posted ts) sys =
     (case inflight sys of
        [] \<Rightarrow> sys
      | req # rest \<Rightarrow>
          (case handleSendSettled req posted ts (app sys) (win sys) of
             (_, a, w) \<Rightarrow> rendered f (sys\<lparr> app := a, win := w, inflight := rest \<rparr>)))"
| "step f (Select i) sys = rendered f (sys\<lparr> app := setActiveConversationId i (app sys) \<rparr>)"
| "step f (Create prompted now rnd) sys =
     (case createConversation prompted now rnd (app sys) of
        (None, a) \<Rightarrow> rendered f (sys\<lparr> app := a \<rparr>)
      | (Some _, _) \<Rightarrow> sys)"
| "step f (Delete i) sys =
     (case deleteConversation i (app sys) of
        (Some (Alerted _), _) \<Rightarrow> sys
      | (_, a) \<Rightarrow> rendered f (sys\<lparr> app := a \<rparr>))"
| "step f (UploadSucceeded r) sys = rendered f (sys\<lparr> app := handleUploadSuccess r (app sys) \<rparr>)"
| "step f (ResetSucceeded r) sys =
     rendered f (sys\<lparr> app := snd (handleResetSystem True (Inr ()) r (app sys)) \<rparr>)"
| "step f (ClearChat confirmed) sys = sys\<lparr> win := handleClearChat confirmed (win sys) \<rparr>"
| "step f LoadMessages sys = sys\<lparr> win := loadMessages (app sys) (win sys) \<rparr>"

fun run :: "(js_value \<Rightarrow> string) \<Rightarrow> event list \<Rightarrow> system \<Rightarrow> system" where
  "run f [] sys = sys"
| "run f (e # es) sys = run f es (step f e sys)"

text \<open>
  The page after its first render: \<^verbatim>\<open>useState('')\<close>, \<^verbatim>\<open>useState(initialMessages)\<close>
  and \<^verbatim>\<open>useState(false)\<close> in the window, both saving effects run, nothing in flight.
\<close>

definition mounted :: "(js_value \<Rightarrow> string) \<Rightarrow> app_state \<Rightarrow> system" where
  "mounted JSON_stringify a =
     \<lparr> app = a,
       win = \<lparr> input = [], messages_win = messages_prop a, isLoading = False \<rparr>,
       store = saveEffects JSON_stringify a,
       inflight = [] \<rparr>"

text \<open>
  Sequences of the two operations of the conversation invariant, and the freshness
  of the identifiers the environment supplies: a creation that is accepted (no
  alert) gets an identifier that no conversation of the collection carries; nothing
  is asked of the identifier of a creation that is rejected.
\<close>

datatype operation = CreateOp "string option" nat string | DeleteOp string

fun perform :: "operation \<Rightarrow> app_state \<Rightarrow> notice option \<times> app_state" where
  "perform (CreateOp prompted now rnd) s = createConversation prompted now rnd s"
| "perform (DeleteOp i) s = deleteConversation i s"

fun performAll :: "operation list \<Rightarrow> app_state \<Rightarrow> app_state" where
  "performAll [] s = s"
| "performAll (p # ps) s = performAll ps (snd (perform p s))"

fun freshOp :: "operation \<Rightarrow> app_state \<Rightarrow> bool" where
  "freshOp (CreateOp prompted now rnd) s =
     (fst (createConversation prompted now rnd s) \<noteq> None
      \<or> newConvId now rnd \<notin> set (map id_conv (conversations s)))"
| "freshOp (DeleteOp i) s = True"

fun freshIds :: "operation list \<Rightarrow> app_state \<Rightarrow> bool" where
  "freshIds [] s = True"
| "freshIds (p # ps) s = (freshOp p s \<and> freshIds ps (snd (perform p s)))"

fun neverThrows :: "operation list \<Rightarrow> app_state \<Rightarrow> bool" where
  "neverThrows [] s = True"
| "neverThrows (p # ps) s =
     (fst (perform p s) \<noteq> Some (Thrown TypeError) \<and> neverThrows ps (snd (perform p s)))"

text \<open>The conversation invariant, with the distinctness of identifiers it rests on.\<close>

definition nonEmptyAndActive :: "app_state \<Rightarrow> bool" where
  "nonEmptyAndActive s =
     (conversations s \<noteq> [] \<and> activeConversationId s \<in> set (map id_conv (conversations s)))"

definition distinctIds :: "app_state \<Rightarrow> bool" where
  "distinctIds s = distinct (map id_conv (conversations s))"




section \<open>Title sanitisation and creation\<close>









section \<open>The conversation invariant\<close>

lemma filter_eq_distinct_le1:
  "distinct (map f xs) \<Longrightarrow> length (filter (\<lambda>x. f x = i) xs) \<le> 1"
proof (induction xs)
  case Nil
  then show ?case by simp
next
  case (Cons x xs)
  show ?case
  proof (cases "f x = i")
    case True
    from Cons.prems have "f x \<notin> f ` set xs" by simp
    then have "\<forall>y\<in>set xs. f y \<noteq> f x" by (metis imageI)
    with True have "\<forall>y\<in>set xs. f y \<noteq> i" by simp
    then have "filter (\<lambda>x. f x = i) xs = []" by (simp add: filter_empty_conv)
    with True show ?thesis by simp
  next
    case False
    with Cons show ?thesis by simp
  qed
qed

lemma filter_neq_nonempty:
  assumes "distinct (map f xs)" and "2 \<le> length xs"
  shows "filter (\<lambda>x. f x \<noteq> i) xs \<noteq> []"
proof -
  have "length xs = length (filter (\<lambda>x. f x = i) xs) + length (filter (\<lambda>x. \<not> f x = i) xs)"
    by (simp add: sum_length_filter_compl)
  with filter_eq_distinct_le1[OF assms(1), of i] assms(2)
  have "1 \<le> length (filter (\<lambda>x. f x \<noteq> i) xs)" by simp
  then show ?thesis by auto
qed

lemma create_keeps:
  assumes "nonEmptyAndActive s" and "distinctIds s"
    and "fst (createConversation prompted now rnd s) \<noteq> None
          \<or> newConvId now rnd \<notin> set (map id_conv (conversations s))"
  shows "nonEmptyAndActive (snd (createConversation prompted now rnd s))
       \<and> distinctIds (snd (createConversation prompted now rnd s))
       \<and> fst (createConversation prompted now rnd s) \<noteq> Some (Thrown TypeError)"
  using assms
  by (auto simp: createConversation_def nonEmptyAndActive_def distinctIds_def Let_def
      split: option.splits)

lemma delete_keeps:
  assumes "nonEmptyAndActive s" and "distinctIds s"
  shows "nonEmptyAndActive (snd (deleteConversation i s))
       \<and> distinctIds (snd (deleteConversation i s))
       \<and> fst (deleteConversation i s) \<noteq> Some (Thrown TypeError)"
proof (cases "length (conversations s) = 1")
  case True
  with assms show ?thesis by (simp add: deleteConversation_def)
next
  case False
  let ?filtered = "filter (\<lambda>c. id_conv c \<noteq> i) (conversations s)"
  from False assms(1) have "2 \<le> length (conversations s)"
    by (cases "conversations s") (auto simp: nonEmptyAndActive_def Suc_le_eq)
  with assms(2) have ne: "?filtered \<noteq> []"
    unfolding distinctIds_def by (rule filter_neq_nonempty)
  have dist: "distinct (map id_conv ?filtered)"
    using assms(2) by (simp add: distinctIds_def distinct_map_filter)
  show ?thesis
  proof (cases "activeConversationId s = i")
    case True
    from ne obtain c rest where f: "?filtered = c # rest" by (cases ?filtered) auto
    with dist have "distinct (map id_conv (c # rest))" by simp
    with \<open>length (conversations s) \<noteq> 1\<close> True f show ?thesis
      by (simp add: deleteConversation_def nonEmptyAndActive_def distinctIds_def Let_def)
  next
    case neq: False
    from assms(1) have "activeConversationId s \<in> set (map id_conv (conversations s))"
      by (simp add: nonEmptyAndActive_def)
    with neq have "activeConversationId s \<in> set (map id_conv ?filtered)" by auto
    with \<open>length (conversations s) \<noteq> 1\<close> neq ne dist show ?thesis
      by (simp add: deleteConversation_def nonEmptyAndActive_def distinctIds_def Let_def)
  qed
qed

lemma perform_keeps:
  assumes "nonEmptyAndActive s" and "distinctIds s" and "freshOp p s"
  shows "nonEmptyAndActive (snd (perform p s)) \<and> distinctIds (snd (perform p s))
       \<and> fst (perform p s) \<noteq> Some (Thrown TypeError)"
proof (cases p)
  case (CreateOp prompted now rnd)
  with assms create_keeps[of s prompted now rnd] show ?thesis by simp
next
  case (DeleteOp i)
  with assms delete_keeps[of s i] show ?thesis by simp
qed

lemma performAll_keeps:
  "nonEmptyAndActive s \<Longrightarrow> distinctIds s \<Longrightarrow> freshIds ps s \<Longrightarrow>
     nonEmptyAndActive (performAll ps s) \<and> distinctIds (performAll ps s) \<and> neverThrows ps s"
proof (induction ps arbitrary: s)
  case Nil
  then show ?case by simp
next
  case (Cons p ps)
  from Cons.prems have fp: "freshOp p s" and fr: "freshIds ps (snd (perform p s))" by simp_all
  from perform_keeps[OF Cons.prems(1,2) fp]
  have k: "nonEmptyAndActive (snd (perform p s))" "distinctIds (snd (perform p s))"
    "fst (perform p s) \<noteq> Some (Thrown TypeError)" by simp_all
  from Cons.IH[OF k(1,2) fr] k(3) show ?case by simp
qed

lemma freshIds_take: "freshIds ps s \<Longrightarrow> freshIds (take n ps) s"
proof (induction ps arbitrary: s n)
  case Nil
  then show ?case by simp
next
  case (Cons p ps)
  then show ?case by (cases n) simp_all
qed

lemma default_start:
  assumes "rag_conversations st = None \<or> rag_conversations st = Some []
            \<or> (\<exists>t. rag_conversations st = Some t \<and> JSON_parse t = None)"
    and "rag_active_chat st = None \<or> rag_active_chat st = Some []"
  shows "startup JSON_parse now st =
           Inr \<lparr> conversations = [defaultConversation now],
                 activeConversationId = id_conv (defaultConversation now) \<rparr>"
  using assms
  by (auto simp: startup_def loadConversations_def loadActiveConversationId_def)

lemma loaded_start:
  assumes "rag_conversations st = Some t" "t \<noteq> []" "JSON_parse t = Some (Collection cs)"
    and "cs \<noteq> []"
    and "rag_active_chat st = None \<or> rag_active_chat st = Some []
          \<or> (\<exists>a. rag_active_chat st = Some a \<and> a \<in> set (map id_conv cs))"
  shows "\<exists>a. startup JSON_parse now st = Inr \<lparr> conversations = cs, activeConversationId = a \<rparr>
           \<and> a \<in> set (map id_conv cs)"
proof -
  from assms(4) obtain c rest where cs: "cs = c # rest" by (cases cs) auto
  from assms(5) show ?thesis
    using assms(1-3) cs
    by (auto simp: startup_def loadConversations_def loadActiveConversationId_def)
qed


text \<open>
  Claim C1, as amended. A state is sound when its collection is non-empty, its
  identifiers are pairwise distinct and its active identifier names a member.
  From a sound state, every sequence of \<^verbatim>\<open>createConversation\<close> and
  \<^verbatim>\<open>deleteConversation\<close> operations whose accepted creations draw fresh
  identifiers keeps the collection non-empty and the active identifier a member
  after every operation (every prefix of the sequence), and no operation throws.
  Startup yields a sound state when the stored text of the collection is absent,
  the empty string or unparseable and no active identifier is stored (the single
  default conversation), and when the stored text parses to a non-empty collection
  with distinct identifiers and the stored active identifier is absent or names a
  member of it. Startup does not check what it loads, so for other stored contents
  (a text that parses to an empty collection among them) the property is not
  established.
\<close>

theorem conversation_invariant:
  "(nonEmptyAndActive s \<and> distinctIds s \<and> freshIds ps s \<longrightarrow>
      nonEmptyAndActive (performAll (take n ps) s) \<and> distinctIds (performAll (take n ps) s)
      \<and> neverThrows ps s)
   \<and> ((rag_conversations st = None \<or> rag_conversations st = Some []
         \<or> (\<exists>t. rag_conversations st = Some t \<and> JSON_parse t = None))
        \<and> (rag_active_chat st = None \<or> rag_active_chat st = Some []) \<longrightarrow>
      (\<exists>s0. startup JSON_parse now st = Inr s0 \<and> conversations s0 = [defaultConversation now]
            \<and> nonEmptyAndActive s0 \<and> distinctIds s0))
   \<and> (rag_conversations st = Some t \<and> t \<noteq> [] \<and> JSON_parse t = Some (Collection cs)
        \<and> cs \<noteq> [] \<and> distinct (map id_conv cs)
        \<and> (rag_active_chat st = None \<or> rag_active_chat st = Some []
            \<or> (\<exists>a. rag_active_chat st = Some a \<and> a \<in> set (map id_conv cs))) \<longrightarrow>
      (\<exists>s0. startup JSON_parse now st = Inr s0 \<and> conversations s0 = cs
            \<and> nonEmptyAndActive s0 \<and> distinctIds s0))"
proof (intro conjI impI)
  assume a: "nonEmptyAndActive s \<and> distinctIds s \<and> freshIds ps s"
  then have "freshIds (take n ps) s" by (simp add: freshIds_take)
  with a performAll_keeps[of s "take n ps"]
  show "nonEmptyAndActive (performAll (take n ps) s)"
    and "distinctIds (performAll (take n ps) s)" by simp_all
  from a performAll_keeps[of s ps] show "neverThrows ps s" by simp
next
  assume "(rag_conversations st = None \<or> rag_conversations st = Some []
         \<or> (\<exists>t. rag_conversations st = Some t \<and> JSON_parse t = None))
        \<and> (rag_active_chat st = None \<or> rag_active_chat st = Some [])"
  then have "startup JSON_parse now st =
           Inr \<lparr> conversations = [defaultConversation now],
                 activeConversationId = id_conv (defaultConversation now) \<rparr>"
    by (intro default_start) simp_all
  then show "\<exists>s0. startup JSON_parse now st = Inr s0 \<and> conversations s0 = [defaultConversation now]
            \<and> nonEmptyAndActive s0 \<and> distinctIds s0"
    by (simp add: nonEmptyAndActive_def distinctIds_def)
next
  assume h: "rag_conversations st = Some t \<and> t \<noteq> [] \<and> JSON_parse t = Some (Collection cs)
        \<and> cs \<noteq> [] \<and> distinct (map id_conv cs)
        \<and> (rag_active_chat st = None \<or> rag_active_chat st = Some []
            \<or> (\<exists>a. rag_active_chat st = Some a \<and> a \<in> set (map id_conv cs)))"
  then obtain a where "startup JSON_parse now st = Inr \<lparr> conversations = cs, activeConversationId = a \<rparr>"
    and "a \<in> set (map id_conv cs)"
    using loaded_start[of st t JSON_parse cs now] by blast
  with h show "\<exists>s0. startup JSON_parse now st = Inr s0 \<and> conversations s0 = cs
            \<and> nonEmptyAndActive s0 \<and> distinctIds s0"
    by (simp add: nonEmptyAndActive_def distinctIds_def)
qed

lemma decimal_7: "decimal 7 = ''7''" by code_simp
lemma newConvId_8: "newConvId 8 ''ab'' = ''chat-8-ab''" by code_simp

theorem conversation_invariant_witness:
  "nonEmptyAndActive \<lparr> conversations = [defaultConversation 7], activeConversationId = ''chat_7'' \<rparr>
   \<and> distinctIds \<lparr> conversations = [defaultConversation 7], activeConversationId = ''chat_7'' \<rparr>
   \<and> freshIds [CreateOp (Some ''Notes'') 8 ''ab'', CreateOp None 8 ''ab'', DeleteOp ''chat_7'']
        \<lparr> conversations = [defaultConversation 7], activeConversationId = ''chat_7'' \<rparr>
   \<and> nonEmptyAndActive (performAll (take 3 [CreateOp (Some ''Notes'') 8 ''ab'', CreateOp None 8 ''ab'', DeleteOp ''chat_7''])
        \<lparr> conversations = [defaultConversation 7], activeConversationId = ''chat_7'' \<rparr>)
   \<and> performAll [CreateOp (Some ''Notes'') 8 ''ab'', CreateOp None 8 ''ab'', DeleteOp ''chat_7'']
        \<lparr> conversations = [defaultConversation 7], activeConversationId = ''chat_7'' \<rparr> =
      \<lparr> conversations = [\<lparr> id_conv = ''chat-8-ab'', title = ''Notes'', name = ''Notes'',
                            hasDocuments = False, messages = [] \<rparr>],
        activeConversationId = ''chat-8-ab'' \<rparr>
   \<and> (\<exists>s0. startup Map.empty 7 \<lparr> rag_conversations = None, rag_active_chat = None \<rparr> = Inr s0
         \<and> nonEmptyAndActive s0)
   \<and> (\<exists>s0. startup (Map.empty(''[c]'' \<mapsto> Collection [defaultConversation 3])) 7
               \<lparr> rag_conversations = Some ''[c]'', rag_active_chat = Some ''chat_3'' \<rparr> = Inr s0
         \<and> conversations s0 = [defaultConversation 3] \<and> nonEmptyAndActive s0)"
proof -
  let ?s = "\<lparr> conversations = [defaultConversation 7], activeConversationId = ''chat_7'' \<rparr>"
  let ?ps = "[CreateOp (Some ''Notes'') 8 ''ab'', CreateOp None 8 ''ab'', DeleteOp ''chat_7'']"
  have d3: "decimal 3 = ''3''" by code_simp
  have sn: "sanitizedName ''Notes'' = ''Notes''"
    by (simp add: sanitizedName_def trim_def keptByRegex_def isAlnum_def isWhiteSpace_def)
  have tn: "trim ''Notes'' = ''Notes''" by (simp add: trim_def isWhiteSpace_def)
  have h1: "nonEmptyAndActive ?s" and h2: "distinctIds ?s"
    by (simp_all add: nonEmptyAndActive_def distinctIds_def defaultConversation_def decimal_7)
  have c1: "createConversation (Some ''Notes'') 8 ''ab'' ?s =
      (None, \<lparr> conversations = [defaultConversation 7,
           \<lparr> id_conv = ''chat-8-ab'', title = ''Notes'', name = ''Notes'',
              hasDocuments = False, messages = [] \<rparr>],
        activeConversationId = ''chat-8-ab'' \<rparr>)"
    by (simp add: createConversation_def sn tn newConvId_8)
  have h3: "freshIds ?ps ?s"
    unfolding freshIds.simps freshOp.simps perform.simps c1
    by (simp add: newConvId_8 defaultConversation_def decimal_7 createConversation_def)
  have r: "performAll ?ps ?s =
      \<lparr> conversations = [\<lparr> id_conv = ''chat-8-ab'', title = ''Notes'', name = ''Notes'',
                            hasDocuments = False, messages = [] \<rparr>],
        activeConversationId = ''chat-8-ab'' \<rparr>"
    unfolding performAll.simps perform.simps c1
    by (simp add: deleteConversation_def defaultConversation_def decimal_7 createConversation_def)
  have p1: "rag_conversations \<lparr> rag_conversations = None, rag_active_chat = None \<rparr> = None
      \<and> rag_active_chat \<lparr> rag_conversations = None, rag_active_chat = None \<rparr> = None"
    by simp
  let ?st = "\<lparr> rag_conversations = Some ''[c]'', rag_active_chat = Some ''chat_3'' \<rparr>"
  let ?parse = "Map.empty(''[c]'' \<mapsto> Collection [defaultConversation 3])"
  have p2: "rag_conversations ?st = Some ''[c]'' \<and> ''[c]'' \<noteq> []
      \<and> ?parse ''[c]'' = Some (Collection [defaultConversation 3])
      \<and> [defaultConversation 3] \<noteq> [] \<and> distinct (map id_conv [defaultConversation 3])
      \<and> (\<exists>a. rag_active_chat ?st = Some a \<and> a \<in> set (map id_conv [defaultConversation 3]))"
    by (simp add: defaultConversation_def d3)
  from conversation_invariant[of ?s ?ps 3 "\<lparr> rag_conversations = None, rag_active_chat = None \<rparr>"
      Map.empty 7] h1 h2 h3 p1
  have g1: "nonEmptyAndActive (performAll (take 3 ?ps) ?s)"
    and g2: "\<exists>s0. startup Map.empty 7 \<lparr> rag_conversations = None, rag_active_chat = None \<rparr> = Inr s0
         \<and> nonEmptyAndActive s0"
    by blast+
  from conversation_invariant[of ?s ?ps 3 ?st ?parse 7 "''[c]''" "[defaultConversation 3]"] p2
  have g3: "\<exists>s0. startup ?parse 7 ?st = Inr s0
         \<and> conversations s0 = [defaultConversation 3] \<and> nonEmptyAndActive s0"
    by blast
  from h1 h2 h3 g1 r g2 g3 show ?thesis by blast
qed

text \<open>
  The claim as stated fails at startup: when the stored collection is unparseable
  and an active identifier is stored, the collection is the default conversation
  while the active identifier is the stored one.
\<close>

theorem conversation_invariant_counterexample:
  "startup Map.empty 7 \<lparr> rag_conversations = Some ''{oops'', rag_active_chat = Some ''chat-1-zz'' \<rparr> =
     Inr \<lparr> conversations = [defaultConversation 7], activeConversationId = ''chat-1-zz'' \<rparr>
   \<and> \<not> nonEmptyAndActive
        \<lparr> conversations = [defaultConversation 7], activeConversationId = ''chat-1-zz'' \<rparr>"
  by (simp add: startup_def loadConversations_def loadActiveConversationId_def
      nonEmptyAndActive_def defaultConversation_def)


text \<open>
  Freshness is needed: the identifier is built from the clock and a random suffix,
  and if two creations drew the same one, deleting it would remove both
  conversations, empty the collection and make \<^verbatim>\<open>filtered[0].id\<close> throw.
\<close>

lemma colliding_identifiers:
  "conversations (performAll
      [CreateOp (Some ''Notes'') 8 ''ab'', CreateOp (Some ''Plans'') 8 ''ab'',
       DeleteOp ''chat_7'', DeleteOp ''chat-8-ab'']
      \<lparr> conversations = [defaultConversation 7], activeConversationId = ''chat_7'' \<rparr>) = []
   \<and> \<not> neverThrows
      [CreateOp (Some ''Notes'') 8 ''ab'', CreateOp (Some ''Plans'') 8 ''ab'',
       DeleteOp ''chat_7'', DeleteOp ''chat-8-ab'']
      \<lparr> conversations = [defaultConversation 7], activeConversationId = ''chat_7'' \<rparr>"
proof -
  have s1: "sanitizedName ''Notes'' = ''Notes''" "trim ''Notes'' = ''Notes''"
    "sanitizedName ''Plans'' = ''Plans''" "trim ''Plans'' = ''Plans''"
    by (simp_all add: sanitizedName_def trim_def keptByRegex_def isAlnum_def isWhiteSpace_def)
  show ?thesis
    by (simp add: createConversation_def deleteConversation_def s1 newConvId_8
        defaultConversation_def decimal_7 Let_def)
qed

section \<open>Loading the persisted collection\<close>

text \<open>
  Claim C6, as amended. When the stored collection is absent, the empty string or
  unparseable, loading yields the single default conversation: title ``New Chat'',
  index name ``default'', no documents, no messages (its identifier is \<open>chat_\<close>
  followed by the clock reading). When the stored text parses, loading returns the
  parsed value as it is; so a collection that was saved is reproduced field for
  field whenever the platform's parser inverts its serialiser on it. Nothing checks
  that the parsed value is a conversation collection.
\<close>

theorem loadConversations_fallback:
  "((saved = None \<or> saved = Some [] \<or> (\<exists>t. saved = Some t \<and> JSON_parse t = None)) \<longrightarrow>
      loadConversations JSON_parse now saved =
        Collection [\<lparr> id_conv = ''chat_'' @ decimal now, title = ''New Chat'', name = ''default'',
                      hasDocuments = False, messages = [] \<rparr>])
   \<and> (t \<noteq> [] \<and> JSON_parse t = Some v \<longrightarrow> loadConversations JSON_parse now (Some t) = v)
   \<and> (JSON_stringify (Collection (conversations s)) \<noteq> []
        \<and> JSON_parse (JSON_stringify (Collection (conversations s))) = Some (Collection (conversations s))
      \<longrightarrow> loadConversations JSON_parse now (rag_conversations (saveEffects JSON_stringify s)) =
            Collection (conversations s))"
  by (auto simp: loadConversations_def defaultConversation_def saveEffects_def)

theorem loadConversations_fallback_witness:
  "loadConversations (Map.empty(''[c]'' \<mapsto> Collection [defaultConversation 3])) 7 (Some ''{oops'') =
     Collection [\<lparr> id_conv = ''chat_7'', title = ''New Chat'', name = ''default'',
                   hasDocuments = False, messages = [] \<rparr>]
   \<and> loadConversations (Map.empty(''[c]'' \<mapsto> Collection [defaultConversation 3])) 7 (Some ''[c]'') =
     Collection [defaultConversation 3]
   \<and> loadConversations (Map.empty(''[c]'' \<mapsto> Collection [defaultConversation 3])) 7
        (rag_conversations (saveEffects (\<lambda>v. ''[c]'')
           \<lparr> conversations = [defaultConversation 3], activeConversationId = ''chat_3'' \<rparr>)) =
     Collection [defaultConversation 3]"
proof -
  let ?parse = "Map.empty(''[c]'' \<mapsto> Collection [defaultConversation 3])"
  let ?s = "\<lparr> conversations = [defaultConversation 3], activeConversationId = ''chat_3'' \<rparr>"
  have d7: "decimal 7 = ''7''" by code_simp
  have h1: "\<exists>t. Some ''{oops'' = Some t \<and> ?parse t = None" by simp
  have h2: "''[c]'' \<noteq> [] \<and> ?parse ''[c]'' = Some (Collection [defaultConversation 3])" by simp
  have h3: "(\<lambda>v. ''[c]'') (Collection (conversations ?s)) \<noteq> []
      \<and> ?parse ((\<lambda>v. ''[c]'') (Collection (conversations ?s))) = Some (Collection (conversations ?s))"
    by simp
  from loadConversations_fallback[of "Some ''{oops''" ?parse 7 "''[c]''" "Collection [defaultConversation 3]"
      "\<lambda>v. ''[c]''" ?s] h1 h2 h3 d7
  show ?thesis by simp
qed

text \<open>
  The claim as stated fails for a stored text that parses to something other than
  a conversation collection: the text \<open>null\<close> loads as \<open>null\<close>, not as the default.
\<close>

theorem loadConversations_fallback_counterexample:
  "loadConversations (Map.empty(''null'' \<mapsto> JNull)) 7 (Some ''null'') = JNull
   \<and> JNull \<noteq> Collection [defaultConversation 7]"
  by (simp add: loadConversations_def)


section \<open>Upload\<close>

lemma all_of_map: "(\<And>x. P (f x)) \<Longrightarrow> \<forall>c \<in> set (map f cs). P c"
  by simp

lemma some_of_map: "x \<in> set cs \<Longrightarrow> P (f x) \<Longrightarrow> \<exists>c \<in> set (map f cs). P c"
  by (metis image_eqI set_map)

lemma map_unchanged: "(\<And>x. x \<in> set cs \<Longrightarrow> f x = x) \<Longrightarrow> map f cs = cs"
  by (induction cs) simp_all

text \<open>
  An upload started in a render \<open>r\<close> sends \<^verbatim>\<open>chat_id\<close> = the active identifier
  of \<open>r\<close>; when the request succeeds, \<^verbatim>\<open>onUploadSuccess\<close> of that same render
  runs, so the collection becomes that of \<open>r\<close> with \<open>hasDocuments\<close> set on exactly
  the conversations carrying the identifier that was sent, whatever conversation is
  active by then (\<open>s\<close>): every conversation with that identifier has documents
  afterwards, and one exists if one existed in \<open>r\<close>. When the render is still the
  current state and the targeted conversation already has documents, the state is
  unchanged, and marking twice equals marking once. A failed request and a missing
  file leave the state unchanged.
\<close>

lemma upload_marks_conversation:
  "(uploadRequest (Some f) r = Inr req \<longrightarrow>
      fst (uploadFile (Some f) (Inr data) r s) = None
      \<and> conversations (snd (uploadFile (Some f) (Inr data) r s)) =
          map (\<lambda>c. if id_conv c = chat_id_up req then c\<lparr> hasDocuments := True \<rparr> else c)
            (conversations r)
      \<and> (\<forall>c \<in> set (conversations (snd (uploadFile (Some f) (Inr data) r s))).
            id_conv c = chat_id_up req \<longrightarrow> hasDocuments c)
      \<and> ((\<exists>c \<in> set (conversations r). id_conv c = chat_id_up req) \<longrightarrow>
           (\<exists>c \<in> set (conversations (snd (uploadFile (Some f) (Inr data) r s))).
              id_conv c = chat_id_up req \<and> hasDocuments c)))
   \<and> ((\<forall>c \<in> set (conversations s). id_conv c = activeConversationId s \<longrightarrow> hasDocuments c) \<longrightarrow>
        handleUploadSuccess s s = s)
   \<and> handleUploadSuccess (handleUploadSuccess s s) (handleUploadSuccess s s) = handleUploadSuccess s s
   \<and> snd (uploadFile (Some f) (Inl err) r s) = s
   \<and> uploadFile None posted r s = (Some ''Please select a file first'', s)"
proof -
  define mark :: "string \<Rightarrow> conversation \<Rightarrow> conversation"
    where "mark = (\<lambda>i c. if id_conv c = i then c\<lparr> hasDocuments := True \<rparr> else c)"
  have mark_id: "id_conv (mark i c) = id_conv c" for i c by (simp add: mark_def)
  have mark_has: "id_conv (mark i c) = i \<longrightarrow> hasDocuments (mark i c)" for i c
    by (simp add: mark_def)
  have mark_same: "mark i c = c" if "id_conv c = i \<longrightarrow> hasDocuments c" for i c
    using that by (simp add: mark_def)
  have up: "handleUploadSuccess r s = s\<lparr> conversations := map (mark (activeConversationId r)) (conversations r) \<rparr>"
    for r s by (simp add: handleUploadSuccess_def mark_def)
  have ok: "uploadFile (Some f) (Inr data) r s = (None, handleUploadSuccess r s)"
    by (simp add: uploadFile_def)
  show ?thesis
  proof (intro conjI impI)
    assume rq: "uploadRequest (Some f) r = Inr req"
    then have i: "chat_id_up req = activeConversationId r"
      by (auto simp: uploadRequest_def chatId_prop_def)
    have cs: "conversations (snd (uploadFile (Some f) (Inr data) r s)) =
          map (mark (chat_id_up req)) (conversations r)"
      by (simp add: ok up i)
    show "fst (uploadFile (Some f) (Inr data) r s) = None" by (simp add: ok)
    from cs show "conversations (snd (uploadFile (Some f) (Inr data) r s)) =
          map (\<lambda>c. if id_conv c = chat_id_up req then c\<lparr> hasDocuments := True \<rparr> else c)
            (conversations r)"
      by (simp add: mark_def)
    show "\<forall>c \<in> set (conversations (snd (uploadFile (Some f) (Inr data) r s))).
            id_conv c = chat_id_up req \<longrightarrow> hasDocuments c"
      unfolding cs by (rule all_of_map) (rule mark_has)
    assume "\<exists>c \<in> set (conversations r). id_conv c = chat_id_up req"
    then obtain x where x: "x \<in> set (conversations r)" "id_conv x = chat_id_up req" by blast
    from x(2) have "id_conv (mark (chat_id_up req) x) = chat_id_up req
        \<and> hasDocuments (mark (chat_id_up req) x)"
      using mark_id[of "chat_id_up req" x] mark_has[of "chat_id_up req" x] by simp
    with x(1) show "\<exists>c \<in> set (conversations (snd (uploadFile (Some f) (Inr data) r s))).
              id_conv c = chat_id_up req \<and> hasDocuments c"
      unfolding cs by (rule some_of_map)
  next
    assume h: "\<forall>c \<in> set (conversations s). id_conv c = activeConversationId s \<longrightarrow> hasDocuments c"
    have "map (mark (activeConversationId s)) (conversations s) = conversations s"
      by (rule map_unchanged) (use h mark_same in blast)
    then show "handleUploadSuccess s s = s" by (simp add: up)
  next
    let ?s1 = "handleUploadSuccess s s"
    have a1: "activeConversationId ?s1 = activeConversationId s" by (simp add: up)
    have c1: "conversations ?s1 = map (mark (activeConversationId s)) (conversations s)"
      by (simp add: up)
    have "map (mark (activeConversationId s)) (conversations ?s1) = conversations ?s1"
    proof (rule map_unchanged)
      fix x assume "x \<in> set (conversations ?s1)"
      then obtain y where "x = mark (activeConversationId s) y" unfolding c1 by auto
      then show "mark (activeConversationId s) x = x"
        using mark_has[of "activeConversationId s" y] mark_same[of x "activeConversationId s"]
        by simp
    qed
    then show "handleUploadSuccess ?s1 ?s1 = ?s1"
      using up[of ?s1 ?s1] a1 by simp
  next
    show "snd (uploadFile (Some f) (Inl err) r s) = s" by (simp add: uploadFile_def)
    show "uploadFile None posted r s = (Some ''Please select a file first'', s)"
      by (simp add: uploadFile_def)
  qed
qed


lemma upload_marks_conversation_example:
  "uploadRequest (Some ''doc.pdf'')
      \<lparr> conversations =
          [\<lparr> id_conv = ''a'', title = ''A'', name = ''A'', hasDocuments = False, messages = [] \<rparr>,
           \<lparr> id_conv = ''b'', title = ''B'', name = ''B'', hasDocuments = True, messages = [] \<rparr>],
        activeConversationId = ''a'' \<rparr> =
     Inr \<lparr> file_up = ''doc.pdf'', chat_id_up = ''a'', chat_name_up = Some ''A'' \<rparr>
   \<and> (\<exists>c \<in> set (conversations (snd (uploadFile (Some ''doc.pdf'')
          (Inr \<lparr> message_up = ''ok'', chunks = 4 \<rparr>)
          \<lparr> conversations =
              [\<lparr> id_conv = ''a'', title = ''A'', name = ''A'', hasDocuments = False, messages = [] \<rparr>,
               \<lparr> id_conv = ''b'', title = ''B'', name = ''B'', hasDocuments = True, messages = [] \<rparr>],
            activeConversationId = ''a'' \<rparr>
          \<lparr> conversations =
              [\<lparr> id_conv = ''a'', title = ''A'', name = ''A'', hasDocuments = False, messages = [] \<rparr>,
               \<lparr> id_conv = ''b'', title = ''B'', name = ''B'', hasDocuments = True, messages = [] \<rparr>],
            activeConversationId = ''b'' \<rparr>))).
        id_conv c = ''a'' \<and> hasDocuments c)
   \<and> handleUploadSuccess
        \<lparr> conversations =
            [\<lparr> id_conv = ''a'', title = ''A'', name = ''A'', hasDocuments = False, messages = [] \<rparr>,
             \<lparr> id_conv = ''b'', title = ''B'', name = ''B'', hasDocuments = True, messages = [] \<rparr>],
          activeConversationId = ''b'' \<rparr>
        \<lparr> conversations =
            [\<lparr> id_conv = ''a'', title = ''A'', name = ''A'', hasDocuments = False, messages = [] \<rparr>,
             \<lparr> id_conv = ''b'', title = ''B'', name = ''B'', hasDocuments = True, messages = [] \<rparr>],
          activeConversationId = ''b'' \<rparr> =
      \<lparr> conversations =
          [\<lparr> id_conv = ''a'', title = ''A'', name = ''A'', hasDocuments = False, messages = [] \<rparr>,
           \<lparr> id_conv = ''b'', title = ''B'', name = ''B'', hasDocuments = True, messages = [] \<rparr>],
        activeConversationId = ''b'' \<rparr>"
proof -
  let ?cs = "[\<lparr> id_conv = ''a'', title = ''A'', name = ''A'', hasDocuments = False, messages = [] \<rparr>,
              \<lparr> id_conv = ''b'', title = ''B'', name = ''B'', hasDocuments = True, messages = [] \<rparr>]"
  let ?r = "\<lparr> conversations = ?cs, activeConversationId = ''a'' \<rparr>"
  let ?s = "\<lparr> conversations = ?cs, activeConversationId = ''b'' \<rparr>"
  let ?req = "\<lparr> file_up = ''doc.pdf'', chat_id_up = ''a'', chat_name_up = Some ''A'' \<rparr>"
  have h1: "uploadRequest (Some ''doc.pdf'') ?r = Inr ?req"
    by (simp add: uploadRequest_def chatId_prop_def chatName_prop_def activeConversation_def)
  have h2: "\<exists>c \<in> set (conversations ?r). id_conv c = chat_id_up ?req" by simp
  have h3: "\<forall>c \<in> set (conversations ?s). id_conv c = activeConversationId ?s \<longrightarrow> hasDocuments c"
    by simp
  note inst = upload_marks_conversation[of "''doc.pdf''" ?r ?req "\<lparr> message_up = ''ok'', chunks = 4 \<rparr>" ?s]
  from inst h1 h2
  have g1: "\<exists>c \<in> set (conversations (snd (uploadFile (Some ''doc.pdf'')
          (Inr \<lparr> message_up = ''ok'', chunks = 4 \<rparr>) ?r ?s))).
        id_conv c = chat_id_up ?req \<and> hasDocuments c"
    by blast
  from inst h3 have g2: "handleUploadSuccess ?s ?s = ?s" by blast
  from h1 g1 g2 show ?thesis by simp
qed



text \<open>
  Claim C2 fails in its last clause. The upload does set \<open>hasDocuments\<close> on the
  conversation it was issued for (above), but marking a conversation that already
  has documents does not leave the state unchanged: the handler runs after the
  request, with the collection captured when the upload was started, and the
  collection it sets is computed from that one alone. Whatever changed in between is
  undone (the defect of the array form of \<^verbatim>\<open>setConversations\<close>, lines 87-93).
\<close>

theorem upload_sets_captured_collection:
  "snd (uploadFile (Some f) (Inr data) r s) = handleUploadSuccess r s
   \<and> conversations (handleUploadSuccess r s) = conversations (handleUploadSuccess r r)
   \<and> activeConversationId (handleUploadSuccess r s) = activeConversationId s"
  by (simp add: uploadFile_def handleUploadSuccess_def)

theorem upload_sets_captured_collection_witness:
  "hasDocuments (hd (conversations
      \<lparr> conversations =
          [\<lparr> id_conv = ''a'', title = ''A'', name = ''A'', hasDocuments = True, messages = [] \<rparr>,
           \<lparr> id_conv = ''b'', title = ''B'', name = ''B'', hasDocuments = True,
              messages = [\<lparr> text_msg = ''answer'', isUser = False, timestamp = ''t2'',
                            sources = Some [], isError = None \<rparr>] \<rparr>],
        activeConversationId = ''a'' \<rparr>))
   \<and> snd (uploadFile (Some ''doc.pdf'') (Inr \<lparr> message_up = ''ok'', chunks = 4 \<rparr>)
        \<lparr> conversations =
            [\<lparr> id_conv = ''a'', title = ''A'', name = ''A'', hasDocuments = True, messages = [] \<rparr>,
             \<lparr> id_conv = ''b'', title = ''B'', name = ''B'', hasDocuments = True, messages = [] \<rparr>],
          activeConversationId = ''a'' \<rparr>
        \<lparr> conversations =
            [\<lparr> id_conv = ''a'', title = ''A'', name = ''A'', hasDocuments = True, messages = [] \<rparr>,
             \<lparr> id_conv = ''b'', title = ''B'', name = ''B'', hasDocuments = True,
                messages = [\<lparr> text_msg = ''answer'', isUser = False, timestamp = ''t2'',
                              sources = Some [], isError = None \<rparr>] \<rparr>],
          activeConversationId = ''a'' \<rparr>) =
      \<lparr> conversations =
          [\<lparr> id_conv = ''a'', title = ''A'', name = ''A'', hasDocuments = True, messages = [] \<rparr>,
           \<lparr> id_conv = ''b'', title = ''B'', name = ''B'', hasDocuments = True, messages = [] \<rparr>],
        activeConversationId = ''a'' \<rparr>
   \<and> snd (uploadFile (Some ''doc.pdf'') (Inr \<lparr> message_up = ''ok'', chunks = 4 \<rparr>)
        \<lparr> conversations =
            [\<lparr> id_conv = ''a'', title = ''A'', name = ''A'', hasDocuments = True, messages = [] \<rparr>,
             \<lparr> id_conv = ''b'', title = ''B'', name = ''B'', hasDocuments = True, messages = [] \<rparr>],
          activeConversationId = ''a'' \<rparr>
        \<lparr> conversations =
            [\<lparr> id_conv = ''a'', title = ''A'', name = ''A'', hasDocuments = True, messages = [] \<rparr>,
             \<lparr> id_conv = ''b'', title = ''B'', name = ''B'', hasDocuments = True,
                messages = [\<lparr> text_msg = ''answer'', isUser = False, timestamp = ''t2'',
                              sources = Some [], isError = None \<rparr>] \<rparr>],
          activeConversationId = ''a'' \<rparr>) \<noteq>
      \<lparr> conversations =
          [\<lparr> id_conv = ''a'', title = ''A'', name = ''A'', hasDocuments = True, messages = [] \<rparr>,
           \<lparr> id_conv = ''b'', title = ''B'', name = ''B'', hasDocuments = True,
              messages = [\<lparr> text_msg = ''answer'', isUser = False, timestamp = ''t2'',
                            sources = Some [], isError = None \<rparr>] \<rparr>],
        activeConversationId = ''a'' \<rparr>"
proof -
  let ?m = "\<lparr> text_msg = ''answer'', isUser = False, timestamp = ''t2'', sources = Some [], isError = None \<rparr>"
  let ?r = "\<lparr> conversations =
            [\<lparr> id_conv = ''a'', title = ''A'', name = ''A'', hasDocuments = True, messages = [] \<rparr>,
             \<lparr> id_conv = ''b'', title = ''B'', name = ''B'', hasDocuments = True, messages = [] \<rparr>],
          activeConversationId = ''a'' \<rparr>"
  let ?s = "\<lparr> conversations =
            [\<lparr> id_conv = ''a'', title = ''A'', name = ''A'', hasDocuments = True, messages = [] \<rparr>,
             \<lparr> id_conv = ''b'', title = ''B'', name = ''B'', hasDocuments = True, messages = [?m] \<rparr>],
          activeConversationId = ''a'' \<rparr>"
  let ?data = "\<lparr> message_up = ''ok'', chunks = 4 \<rparr>"
  note inst = upload_sets_captured_collection[of "''doc.pdf''" ?data ?r ?s]
  have same: "handleUploadSuccess ?r ?r = ?r" by (simp add: handleUploadSuccess_def)
  from inst have u: "snd (uploadFile (Some ''doc.pdf'') (Inr ?data) ?r ?s) = handleUploadSuccess ?r ?s"
    and c: "conversations (handleUploadSuccess ?r ?s) = conversations (handleUploadSuccess ?r ?r)"
    and a: "activeConversationId (handleUploadSuccess ?r ?s) = activeConversationId ?s"
    by blast+
  have "handleUploadSuccess ?r ?s =
      \<lparr> conversations = conversations (handleUploadSuccess ?r ?s),
        activeConversationId = activeConversationId (handleUploadSuccess ?r ?s) \<rparr>"
    by simp
  with c a same have "handleUploadSuccess ?r ?s = ?r" by simp
  with u have w1: "snd (uploadFile (Some ''doc.pdf'') (Inr ?data) ?r ?s) = ?r" by simp
  have w0: "hasDocuments (hd (conversations ?s))" by simp
  have "?r \<noteq> ?s" by simp
  with w1 have w2: "snd (uploadFile (Some ''doc.pdf'') (Inr ?data) ?r ?s) \<noteq> ?s" by simp
  show ?thesis by (intro conjI) (rule w0 w1 w2)+
qed

section \<open>Reset\<close>

text \<open>
  Claim C3. A confirmed reset sends the active identifier of its render \<open>r\<close>. When
  the request succeeds, the collection becomes that of \<open>r\<close> with \<open>hasDocuments\<close>
  false and no messages on every conversation carrying that identifier; in
  particular a conversation of \<open>r\<close> that had documents and messages is cleared. When
  the request fails, the state \<open>s\<close> is unchanged (so are the flag and the messages
  of every conversation) and the failure is shown in an alert. A reset that is not
  confirmed sends nothing and changes nothing.
\<close>

theorem reset_semantics:
  "fst (handleResetSystem True (Inr ()) r s) = None
   \<and> resetRequest True r = Some (activeConversationId r)
   \<and> conversations (snd (handleResetSystem True (Inr ()) r s)) =
        map (\<lambda>c. if id_conv c = activeConversationId r
                 then c\<lparr> hasDocuments := False, messages := [] \<rparr> else c) (conversations r)
   \<and> (\<forall>c \<in> set (conversations (snd (handleResetSystem True (Inr ()) r s))).
         id_conv c = activeConversationId r \<longrightarrow> \<not> hasDocuments c \<and> messages c = [])
   \<and> ((\<exists>c \<in> set (conversations r).
          id_conv c = activeConversationId r \<and> hasDocuments c \<and> messages c \<noteq> []) \<longrightarrow>
        (\<exists>c \<in> set (conversations (snd (handleResetSystem True (Inr ()) r s))).
          id_conv c = activeConversationId r \<and> \<not> hasDocuments c \<and> messages c = []))
   \<and> handleResetSystem True (Inl err) r s =
        (Some (Alerted (''Failed to reset: '' @ orElse (err_detail err) (err_message err))), s)
   \<and> handleResetSystem False posted r s = (None, s)
   \<and> resetRequest False r = None"
proof -
  define clear :: "string \<Rightarrow> conversation \<Rightarrow> conversation"
    where "clear = (\<lambda>i c. if id_conv c = i then c\<lparr> hasDocuments := False, messages := [] \<rparr> else c)"
  have clear_id: "id_conv (clear i c) = id_conv c" for i c by (simp add: clear_def)
  have clear_ok: "id_conv (clear i c) = i \<longrightarrow> \<not> hasDocuments (clear i c) \<and> messages (clear i c) = []"
    for i c by (simp add: clear_def)
  have cs: "conversations (snd (handleResetSystem True (Inr ()) r s)) =
      map (clear (activeConversationId r)) (conversations r)"
    by (simp add: handleResetSystem_def clear_def)
  show ?thesis
  proof (intro conjI impI)
    show "fst (handleResetSystem True (Inr ()) r s) = None" by (simp add: handleResetSystem_def)
    show "resetRequest True r = Some (activeConversationId r)" by (simp add: resetRequest_def)
    from cs show "conversations (snd (handleResetSystem True (Inr ()) r s)) =
        map (\<lambda>c. if id_conv c = activeConversationId r
                 then c\<lparr> hasDocuments := False, messages := [] \<rparr> else c) (conversations r)"
      by (simp add: clear_def)
    show "\<forall>c \<in> set (conversations (snd (handleResetSystem True (Inr ()) r s))).
         id_conv c = activeConversationId r \<longrightarrow> \<not> hasDocuments c \<and> messages c = []"
      unfolding cs by (rule all_of_map) (rule clear_ok)
    show "handleResetSystem True (Inl err) r s =
        (Some (Alerted (''Failed to reset: '' @ orElse (err_detail err) (err_message err))), s)"
      by (simp add: handleResetSystem_def)
    show "handleResetSystem False posted r s = (None, s)" by (simp add: handleResetSystem_def)
    show "resetRequest False r = None" by (simp add: resetRequest_def)
  next
    assume "\<exists>c \<in> set (conversations r).
          id_conv c = activeConversationId r \<and> hasDocuments c \<and> messages c \<noteq> []"
    then obtain x where x: "x \<in> set (conversations r)" "id_conv x = activeConversationId r"
      by blast
    from x(2) have "id_conv (clear (activeConversationId r) x) = activeConversationId r
        \<and> \<not> hasDocuments (clear (activeConversationId r) x)
        \<and> messages (clear (activeConversationId r) x) = []"
      using clear_id[of "activeConversationId r" x] clear_ok[of "activeConversationId r" x] by simp
    with x(1) show "\<exists>c \<in> set (conversations (snd (handleResetSystem True (Inr ()) r s))).
          id_conv c = activeConversationId r \<and> \<not> hasDocuments c \<and> messages c = []"
      unfolding cs by (rule some_of_map)
  qed
qed

theorem reset_semantics_witness:
  "(\<exists>c \<in> set (conversations
        \<lparr> conversations =
            [\<lparr> id_conv = ''a'', title = ''A'', name = ''A'', hasDocuments = True,
               messages =
                 [\<lparr> text_msg = ''q1'', isUser = True, timestamp = ''t1'', sources = None, isError = None \<rparr>,
                  \<lparr> text_msg = ''a1'', isUser = False, timestamp = ''t2'', sources = Some [], isError = None \<rparr>,
                  \<lparr> text_msg = ''q2'', isUser = True, timestamp = ''t3'', sources = None, isError = None \<rparr>] \<rparr>],
          activeConversationId = ''a'' \<rparr>).
      id_conv c = ''a'' \<and> hasDocuments c \<and> messages c \<noteq> [])
   \<and> snd (handleResetSystem True (Inr ())
        \<lparr> conversations =
            [\<lparr> id_conv = ''a'', title = ''A'', name = ''A'', hasDocuments = True,
               messages =
                 [\<lparr> text_msg = ''q1'', isUser = True, timestamp = ''t1'', sources = None, isError = None \<rparr>,
                  \<lparr> text_msg = ''a1'', isUser = False, timestamp = ''t2'', sources = Some [], isError = None \<rparr>,
                  \<lparr> text_msg = ''q2'', isUser = True, timestamp = ''t3'', sources = None, isError = None \<rparr>] \<rparr>],
          activeConversationId = ''a'' \<rparr>
        \<lparr> conversations =
            [\<lparr> id_conv = ''a'', title = ''A'', name = ''A'', hasDocuments = True,
               messages =
                 [\<lparr> text_msg = ''q1'', isUser = True, timestamp = ''t1'', sources = None, isError = None \<rparr>,
                  \<lparr> text_msg = ''a1'', isUser = False, timestamp = ''t2'', sources = Some [], isError = None \<rparr>,
                  \<lparr> text_msg = ''q2'', isUser = True, timestamp = ''t3'', sources = None, isError = None \<rparr>] \<rparr>],
          activeConversationId = ''a'' \<rparr>) =
      \<lparr> conversations =
          [\<lparr> id_conv = ''a'', title = ''A'', name = ''A'', hasDocuments = False, messages = [] \<rparr>],
        activeConversationId = ''a'' \<rparr>"
proof -
  let ?ms = "[\<lparr> text_msg = ''q1'', isUser = True, timestamp = ''t1'', sources = None, isError = None \<rparr>,
              \<lparr> text_msg = ''a1'', isUser = False, timestamp = ''t2'', sources = Some [], isError = None \<rparr>,
              \<lparr> text_msg = ''q2'', isUser = True, timestamp = ''t3'', sources = None, isError = None \<rparr>]"
  let ?r = "\<lparr> conversations =
            [\<lparr> id_conv = ''a'', title = ''A'', name = ''A'', hasDocuments = True, messages = ?ms \<rparr>],
          activeConversationId = ''a'' \<rparr>"
  have h: "\<exists>c \<in> set (conversations ?r).
      id_conv c = activeConversationId ?r \<and> hasDocuments c \<and> messages c \<noteq> []"
    by simp
  from reset_semantics[of ?r ?r] h
  have e: "conversations (snd (handleResetSystem True (Inr ()) ?r ?r)) =
        map (\<lambda>c. if id_conv c = activeConversationId ?r
                 then c\<lparr> hasDocuments := False, messages := [] \<rparr> else c) (conversations ?r)"
    by blast
  have a: "activeConversationId (snd (handleResetSystem True (Inr ()) ?r ?r)) = ''a''"
    by (simp add: handleResetSystem_def)
  have "snd (handleResetSystem True (Inr ()) ?r ?r) =
      \<lparr> conversations = conversations (snd (handleResetSystem True (Inr ()) ?r ?r)),
        activeConversationId = activeConversationId (snd (handleResetSystem True (Inr ()) ?r ?r)) \<rparr>"
    by simp
  with e a have "snd (handleResetSystem True (Inr ()) ?r ?r) =
      \<lparr> conversations =
          [\<lparr> id_conv = ''a'', title = ''A'', name = ''A'', hasDocuments = False, messages = [] \<rparr>],
        activeConversationId = ''a'' \<rparr>"
    by simp
  with h show ?thesis by simp
qed



section \<open>Sending a query\<close>

lemma find_map_same_id:
  assumes "\<And>c. id_conv (g c) = id_conv c"
  shows "find (\<lambda>c. id_conv c = a) (map (\<lambda>c. if id_conv c = a then g c else c) cs) =
         map_option g (find (\<lambda>c. id_conv c = a) cs)"
  using assms by (induction cs) simp_all

lemma activeConversation_addMessage:
  "activeConversation (addMessageToConversation (activeConversationId s) m s) =
     map_option (\<lambda>c. c\<lparr> messages := messages c @ [m] \<rparr>) (activeConversation s)"
  unfolding activeConversation_def addMessageToConversation_def
  using find_map_same_id[of "\<lambda>c. c\<lparr> messages := messages c @ [m] \<rparr>" "activeConversationId s"
      "conversations s"]
  by simp

text \<open>
  Claim C10. When the trimmed input is empty, \<^verbatim>\<open>handleSend\<close> is a no-op: it sends no
  request and leaves the state of \<^verbatim>\<open>App\<close> and of the window as they were. When the
  trimmed input is not empty, the active conversation has documents and no query is
  loading, it appends a user message (\<open>isUser\<close> true) whose text is the trimmed
  input to the active conversation and to the window's list, and the request it
  hands to \<^verbatim>\<open>axios.post\<close> carries that text as its question: the state that goes
  with the request already ends with the user message.
\<close>

theorem handleSend_trims:
  "(trim (input w) = [] \<longrightarrow> handleSend ts s w = (None, s, w))
   \<and> (trim (input w) \<noteq> [] \<and> hasDocuments_prop s \<and> \<not> isLoading w \<longrightarrow>
        (\<exists>m c. text_msg m = trim (input w) \<and> isUser m \<and> timestamp m = ts
           \<and> handleSend ts s w =
               (Some \<lparr> question = trim (input w), chat_id = activeConversationId s,
                       chat_name = chatName_prop s \<rparr>,
                addMessageToConversation (activeConversationId s) m s,
                w\<lparr> messages_win := messages_win w @ [m], input := [], isLoading := True \<rparr>)
           \<and> activeConversation s = Some c
           \<and> activeConversation (addMessageToConversation (activeConversationId s) m s) =
               Some (c\<lparr> messages := messages c @ [m] \<rparr>)))"
proof (intro conjI impI)
  assume "trim (input w) = []"
  then show "handleSend ts s w = (None, s, w)" by (simp add: handleSend_def)
next
  assume h: "trim (input w) \<noteq> [] \<and> hasDocuments_prop s \<and> \<not> isLoading w"
  let ?m = "\<lparr> text_msg = trim (input w), isUser = True, timestamp = ts,
              sources = None, isError = None \<rparr>"
  from h obtain c where c: "activeConversation s = Some c"
    by (auto simp: hasDocuments_prop_def split: option.splits)
  have 1: "handleSend ts s w =
               (Some \<lparr> question = trim (input w), chat_id = activeConversationId s,
                       chat_name = chatName_prop s \<rparr>,
                addMessageToConversation (activeConversationId s) ?m s,
                w\<lparr> messages_win := messages_win w @ [?m], input := [], isLoading := True \<rparr>)"
    using h by (simp add: handleSend_def chatId_prop_def Let_def)
  have 2: "activeConversation (addMessageToConversation (activeConversationId s) ?m s) =
               Some (c\<lparr> messages := messages c @ [?m] \<rparr>)"
    by (simp add: activeConversation_addMessage c)
  have 3: "text_msg ?m = trim (input w) \<and> isUser ?m \<and> timestamp ?m = ts" by simp
  from 1 2 3 c show "\<exists>m c. text_msg m = trim (input w) \<and> isUser m \<and> timestamp m = ts
           \<and> handleSend ts s w =
               (Some \<lparr> question = trim (input w), chat_id = activeConversationId s,
                       chat_name = chatName_prop s \<rparr>,
                addMessageToConversation (activeConversationId s) m s,
                w\<lparr> messages_win := messages_win w @ [m], input := [], isLoading := True \<rparr>)
           \<and> activeConversation s = Some c
           \<and> activeConversation (addMessageToConversation (activeConversationId s) m s) =
               Some (c\<lparr> messages := messages c @ [m] \<rparr>)"
    by blast
qed



theorem handleSend_trims_witness:
  "trim ''   '' = []
   \<and> handleSend ''t1''
        \<lparr> conversations =
            [\<lparr> id_conv = ''a'', title = ''A'', name = ''A'', hasDocuments = True, messages = [] \<rparr>],
          activeConversationId = ''a'' \<rparr>
        \<lparr> input = ''   '', messages_win = [], isLoading = False \<rparr> =
      (None,
       \<lparr> conversations =
            [\<lparr> id_conv = ''a'', title = ''A'', name = ''A'', hasDocuments = True, messages = [] \<rparr>],
          activeConversationId = ''a'' \<rparr>,
       \<lparr> input = ''   '', messages_win = [], isLoading = False \<rparr>)
   \<and> trim ''  hi there '' = ''hi there''
   \<and> hasDocuments_prop
        \<lparr> conversations =
            [\<lparr> id_conv = ''a'', title = ''A'', name = ''A'', hasDocuments = True, messages = [] \<rparr>],
          activeConversationId = ''a'' \<rparr>
   \<and> fst (handleSend ''t1''
        \<lparr> conversations =
            [\<lparr> id_conv = ''a'', title = ''A'', name = ''A'', hasDocuments = True, messages = [] \<rparr>],
          activeConversationId = ''a'' \<rparr>
        \<lparr> input = ''  hi there '', messages_win = [], isLoading = False \<rparr>) =
      Some \<lparr> question = ''hi there'', chat_id = ''a'', chat_name = Some ''A'' \<rparr>"
proof -
  let ?s = "\<lparr> conversations =
            [\<lparr> id_conv = ''a'', title = ''A'', name = ''A'', hasDocuments = True, messages = [] \<rparr>],
          activeConversationId = ''a'' \<rparr>"
  let ?blank = "\<lparr> input = ''   '', messages_win = [], isLoading = False \<rparr>"
  let ?w = "\<lparr> input = ''  hi there '', messages_win = [], isLoading = False \<rparr>"
  have t0: "trim ''   '' = []" by (simp add: trim_def isWhiteSpace_def)
  have t1: "trim ''  hi there '' = ''hi there''" by (simp add: trim_def isWhiteSpace_def)
  have hd: "hasDocuments_prop ?s" by (simp add: hasDocuments_prop_def activeConversation_def)
  have cn: "chatName_prop ?s = Some ''A''" by (simp add: chatName_prop_def activeConversation_def)
  from handleSend_trims[of ?blank "''t1''" ?s] t0 have g0: "handleSend ''t1'' ?s ?blank = (None, ?s, ?blank)"
    by simp
  have pre: "trim (input ?w) \<noteq> [] \<and> hasDocuments_prop ?s \<and> \<not> isLoading ?w"
    using t1 hd by simp
  from handleSend_trims[of ?w "''t1''" ?s] pre
  obtain m where "handleSend ''t1'' ?s ?w =
               (Some \<lparr> question = trim (input ?w), chat_id = activeConversationId ?s,
                       chat_name = chatName_prop ?s \<rparr>,
                addMessageToConversation (activeConversationId ?s) m ?s,
                ?w\<lparr> messages_win := messages_win ?w @ [m], input := [], isLoading := True \<rparr>)"
    by blast
  then have "fst (handleSend ''t1'' ?s ?w) =
      Some \<lparr> question = trim (input ?w), chat_id = activeConversationId ?s, chat_name = chatName_prop ?s \<rparr>"
    by (simp only: fst_conv)
  with t1 cn have g1: "fst (handleSend ''t1'' ?s ?w) =
      Some \<lparr> question = ''hi there'', chat_id = ''a'', chat_name = Some ''A'' \<rparr>"
    by simp
  from t0 g0 t1 hd g1 show ?thesis by blast
qed




section \<open>The query gate\<close>












section \<open>Write-through persistence\<close>

text \<open>
  Every event that changes the state of \<^verbatim>\<open>App\<close> is followed by the saving effects,
  so the store always holds the serialised collection of \<^verbatim>\<open>App\<close>.
\<close>

lemma store_written_through:
  assumes "store sys = saveEffects f (app sys)"
  shows "store (step f e sys) = saveEffects f (app (step f e sys))"
proof (cases e)
  case (Send ts)
  with assms show ?thesis
    by (cases "handleSend ts (app sys) (win sys)") (auto simp: rendered_def split: option.splits)
next
  case (Settled posted ts)
  with assms show ?thesis
    by (cases "inflight sys") (auto simp: rendered_def split: prod.splits)
next
  case (Create prompted now rnd)
  with assms show ?thesis
    by (auto simp: rendered_def split: prod.splits option.splits)
next
  case (Delete i)
  with assms show ?thesis
    by (auto simp: rendered_def split: prod.splits option.splits notice.splits)
qed (use assms in \<open>simp_all add: rendered_def\<close>)

lemma store_written_through_run:
  "store sys = saveEffects f (app sys) \<Longrightarrow>
     store (run f evs sys) = saveEffects f (app (run f evs sys))"
  by (induction evs arbitrary: sys) (simp_all add: store_written_through)

text \<open>
  What ``Clear Chat'' empties is the window's own list. The messages are still in
  the collection, and the effect of lines 122-126 brings them back into the window
  when the next message is appended.
\<close>

lemma cleared_messages_return:
  "messages_win (win (run (\<lambda>v. ''[]'') [ClearChat True, Typing ''and'', Send ''t2'', LoadMessages]
      (mounted (\<lambda>v. ''[]'')
        \<lparr> conversations =
            [\<lparr> id_conv = ''a'', title = ''A'', name = ''A'', hasDocuments = True,
               messages = [\<lparr> text_msg = ''why'', isUser = True, timestamp = ''t1'',
                             sources = None, isError = None \<rparr>] \<rparr>],
          activeConversationId = ''a'' \<rparr>))) =
     [\<lparr> text_msg = ''why'', isUser = True, timestamp = ''t1'', sources = None, isError = None \<rparr>,
      \<lparr> text_msg = ''and'', isUser = True, timestamp = ''t2'', sources = None, isError = None \<rparr>]"
proof -
  have t: "trim ''and'' = ''and''" by (simp add: trim_def isWhiteSpace_def)
  show ?thesis
    by (simp add: mounted_def rendered_def handleClearChat_def handleSend_def t Let_def
        hasDocuments_prop_def messages_prop_def activeConversation_def chatId_prop_def
        chatName_prop_def addMessageToConversation_def loadMessages_def)
qed

text \<open>
  Claim C7 fails for the bulk clear. \<^verbatim>\<open>handleClearChat\<close> sets the window's list to
  empty and calls nothing of \<^verbatim>\<open>App\<close>: the collection and the store stay as they
  were, so the cleared message sequence is not what is persisted. (The sibling
  \<^verbatim>\<open>handleSend\<close> mirrors each change of the window's list to \<^verbatim>\<open>App\<close> through
  \<^verbatim>\<open>onAddMessage\<close>.)
\<close>

theorem clearChat_not_persisted:
  "messages_win (win (step f (ClearChat True) sys)) = []
   \<and> app (step f (ClearChat True) sys) = app sys
   \<and> store (step f (ClearChat True) sys) = store sys"
  by (simp add: handleClearChat_def)

theorem clearChat_not_persisted_witness:
  "messages_win (win (step (\<lambda>v. ''[]'') (ClearChat True)
      (mounted (\<lambda>v. ''[]'')
        \<lparr> conversations =
            [\<lparr> id_conv = ''a'', title = ''A'', name = ''A'', hasDocuments = True,
               messages = [\<lparr> text_msg = ''why'', isUser = True, timestamp = ''t1'',
                             sources = None, isError = None \<rparr>] \<rparr>],
          activeConversationId = ''a'' \<rparr>))) = []
   \<and> messages_prop (app (step (\<lambda>v. ''[]'') (ClearChat True)
      (mounted (\<lambda>v. ''[]'')
        \<lparr> conversations =
            [\<lparr> id_conv = ''a'', title = ''A'', name = ''A'', hasDocuments = True,
               messages = [\<lparr> text_msg = ''why'', isUser = True, timestamp = ''t1'',
                             sources = None, isError = None \<rparr>] \<rparr>],
          activeConversationId = ''a'' \<rparr>))) =
       [\<lparr> text_msg = ''why'', isUser = True, timestamp = ''t1'', sources = None, isError = None \<rparr>]
   \<and> store (step (\<lambda>v. ''[]'') (ClearChat True)
      (mounted (\<lambda>v. ''[]'')
        \<lparr> conversations =
            [\<lparr> id_conv = ''a'', title = ''A'', name = ''A'', hasDocuments = True,
               messages = [\<lparr> text_msg = ''why'', isUser = True, timestamp = ''t1'',
                             sources = None, isError = None \<rparr>] \<rparr>],
          activeConversationId = ''a'' \<rparr>)) =
       saveEffects (\<lambda>v. ''[]'')
        \<lparr> conversations =
            [\<lparr> id_conv = ''a'', title = ''A'', name = ''A'', hasDocuments = True,
               messages = [\<lparr> text_msg = ''why'', isUser = True, timestamp = ''t1'',
                             sources = None, isError = None \<rparr>] \<rparr>],
          activeConversationId = ''a'' \<rparr>
   \<and> messages_win (win (mounted (\<lambda>v. ''[]'')
        \<lparr> conversations =
            [\<lparr> id_conv = ''a'', title = ''A'', name = ''A'', hasDocuments = True,
               messages = [\<lparr> text_msg = ''why'', isUser = True, timestamp = ''t1'',
                             sources = None, isError = None \<rparr>] \<rparr>],
          activeConversationId = ''a'' \<rparr>)) =
       [\<lparr> text_msg = ''why'', isUser = True, timestamp = ''t1'', sources = None, isError = None \<rparr>]"
proof -
  let ?f = "\<lambda>v::js_value. ''[]''"
  let ?u = "\<lparr> text_msg = ''why'', isUser = True, timestamp = ''t1'', sources = None, isError = None \<rparr>"
  let ?a = "\<lparr> conversations =
            [\<lparr> id_conv = ''a'', title = ''A'', name = ''A'', hasDocuments = True, messages = [?u] \<rparr>],
          activeConversationId = ''a'' \<rparr>"
  note c = clearChat_not_persisted[of ?f "mounted ?f ?a"]
  have m: "app (mounted ?f ?a) = ?a" "store (mounted ?f ?a) = saveEffects ?f ?a"
    "messages_win (win (mounted ?f ?a)) = [?u]" "messages_prop ?a = [?u]"
    by (simp_all add: mounted_def messages_prop_def activeConversation_def)
  from c have 1: "messages_win (win (step ?f (ClearChat True) (mounted ?f ?a))) = []" by blast
  from c m have 2: "messages_prop (app (step ?f (ClearChat True) (mounted ?f ?a))) = [?u]"
    by simp
  from c m have 3: "store (step ?f (ClearChat True) (mounted ?f ?a)) = saveEffects ?f ?a" by simp
  from 1 2 3 m(3) show ?thesis by (intro conjI)
qed


section \<open>Other conversations\<close>

text \<open>
  Each of the three per-conversation updates maps over a collection and changes
  only the conversations carrying the targeted identifier. For
  \<^verbatim>\<open>addMessageToConversation\<close> that collection is the current one; for
  \<^verbatim>\<open>handleUploadSuccess\<close> and the clearing step of \<^verbatim>\<open>handleResetSystem\<close> it is
  the collection of the render in which the upload or the reset was started.
\<close>

lemma other_conversations_kept:
  "length (conversations (addMessageToConversation i m s)) = length (conversations s)
   \<and> (\<forall>k < length (conversations s). id_conv (conversations s ! k) \<noteq> i \<longrightarrow>
         conversations (addMessageToConversation i m s) ! k = conversations s ! k)
   \<and> length (conversations (handleUploadSuccess r s)) = length (conversations r)
   \<and> (\<forall>k < length (conversations r). id_conv (conversations r ! k) \<noteq> activeConversationId r \<longrightarrow>
         conversations (handleUploadSuccess r s) ! k = conversations r ! k)
   \<and> length (conversations (snd (handleResetSystem True (Inr ()) r s))) = length (conversations r)
   \<and> (\<forall>k < length (conversations r). id_conv (conversations r ! k) \<noteq> activeConversationId r \<longrightarrow>
         conversations (snd (handleResetSystem True (Inr ()) r s)) ! k = conversations r ! k)"
  by (simp add: addMessageToConversation_def handleUploadSuccess_def handleResetSystem_def)

text \<open>
  Claim C9 fails for the upload and the reset. Their new collection is computed from
  the collection captured when the operation started, not from the current one, and
  replaces the current one: a message appended to another conversation, or a
  conversation created, while the request was under way is lost when it succeeds.
  \<^verbatim>\<open>addMessageToConversation\<close> passes an updater to \<^verbatim>\<open>setConversations\<close> and does
  not lose anything.
\<close>

theorem stale_collection_overwrites:
  "handleUploadSuccess r (addMessageToConversation i m r) = handleUploadSuccess r r
   \<and> snd (handleResetSystem True (Inr ()) r (addMessageToConversation i m r)) =
       snd (handleResetSystem True (Inr ()) r r)
   \<and> conversations (handleUploadSuccess r (snd (createConversation prompted now rnd r))) =
       conversations (handleUploadSuccess r r)"
  by (simp add: handleUploadSuccess_def handleResetSystem_def addMessageToConversation_def)

theorem stale_collection_overwrites_witness:
  "messages (conversations (addMessageToConversation ''b''
        \<lparr> text_msg = ''answer'', isUser = False, timestamp = ''t2'', sources = Some [], isError = None \<rparr>
        \<lparr> conversations =
            [\<lparr> id_conv = ''a'', title = ''A'', name = ''A'', hasDocuments = False, messages = [] \<rparr>,
             \<lparr> id_conv = ''b'', title = ''B'', name = ''B'', hasDocuments = True, messages = [] \<rparr>],
          activeConversationId = ''a'' \<rparr>) ! 1) =
     [\<lparr> text_msg = ''answer'', isUser = False, timestamp = ''t2'', sources = Some [], isError = None \<rparr>]
   \<and> handleUploadSuccess
        \<lparr> conversations =
            [\<lparr> id_conv = ''a'', title = ''A'', name = ''A'', hasDocuments = False, messages = [] \<rparr>,
             \<lparr> id_conv = ''b'', title = ''B'', name = ''B'', hasDocuments = True, messages = [] \<rparr>],
          activeConversationId = ''a'' \<rparr>
        (addMessageToConversation ''b''
          \<lparr> text_msg = ''answer'', isUser = False, timestamp = ''t2'', sources = Some [], isError = None \<rparr>
          \<lparr> conversations =
              [\<lparr> id_conv = ''a'', title = ''A'', name = ''A'', hasDocuments = False, messages = [] \<rparr>,
               \<lparr> id_conv = ''b'', title = ''B'', name = ''B'', hasDocuments = True, messages = [] \<rparr>],
            activeConversationId = ''a'' \<rparr>) =
      \<lparr> conversations =
          [\<lparr> id_conv = ''a'', title = ''A'', name = ''A'', hasDocuments = True, messages = [] \<rparr>,
           \<lparr> id_conv = ''b'', title = ''B'', name = ''B'', hasDocuments = True, messages = [] \<rparr>],
        activeConversationId = ''a'' \<rparr>"
proof -
  let ?m = "\<lparr> text_msg = ''answer'', isUser = False, timestamp = ''t2'', sources = Some [], isError = None \<rparr>"
  let ?r = "\<lparr> conversations =
            [\<lparr> id_conv = ''a'', title = ''A'', name = ''A'', hasDocuments = False, messages = [] \<rparr>,
             \<lparr> id_conv = ''b'', title = ''B'', name = ''B'', hasDocuments = True, messages = [] \<rparr>],
          activeConversationId = ''a'' \<rparr>"
  have 1: "messages (conversations (addMessageToConversation ''b'' ?m ?r) ! 1) = [?m]"
    by (simp add: addMessageToConversation_def)
  have 2: "handleUploadSuccess ?r ?r =
      \<lparr> conversations =
          [\<lparr> id_conv = ''a'', title = ''A'', name = ''A'', hasDocuments = True, messages = [] \<rparr>,
           \<lparr> id_conv = ''b'', title = ''B'', name = ''B'', hasDocuments = True, messages = [] \<rparr>],
        activeConversationId = ''a'' \<rparr>"
    by (simp add: handleUploadSuccess_def)
  from stale_collection_overwrites[of ?r "''b''" ?m]
  have "handleUploadSuccess ?r (addMessageToConversation ''b'' ?m ?r) = handleUploadSuccess ?r ?r"
    by blast
  with 1 2 show ?thesis by simp
qed

end
